theory Spec2Isabelle
  imports Main
begin

section \<open>The convolution layer of syft.core.tensor.nn.layers.convolution\<close>

text \<open>
  The layer (class \<open>Convolution\<close>) is modelled as a record of its attributes; each
  method takes the layer and returns the layer after the call together with the
  outcome of the call: \<open>Inr\<close> the returned value, or \<open>Inl\<close> the exception raised.
  The layer after the call is returned on failure too, because a Python exception
  keeps the attribute writes made before it.

  The tensor class \<open>PhiTensor\<close>, the helpers \<open>im2col_indices\<close> and
  \<open>col2im_indices\<close>, the activations and the weight initialisation are imported by
  the file and are not part of it; they are modelled from the specification below,
  each under a comment that says so.
\<close>

subsection \<open>Exceptions\<close>

datatype error =
    AssertionError
  | AttributeError
  | TypeError
  | ValueError
  | AxisError
  | ZeroDivisionError
  | NotImplementedError

subsection \<open>Bounded tensors\<close>

text \<open>
  Modelled from the spec: the bounded tensor (\<open>PhiTensor\<close>, not among the sources).
  A tensor has a shape, its values in row-major order, and one provenance tag set
  (the data subjects, a list of subject numbers) per element. Values are exact
  integers: floating-point rounding is not modelled. The lower and upper bound
  arrays of the spec are left out of the record: no statement below reads them, and
  the two lines of \<open>backward\<close> that only patch the shape of the bound arrays
  (\<open>min_vals.shape = max_vals.shape = shape\<close>) have no counterpart here. A plain
  numeric array (weights, bias) is a tensor whose tags are all empty.

  A tensor produced by the operations below has \<open>length (child t) = numel (shape t)\<close>;
  every failure condition of an operation depends on shapes only.
\<close>

record tensor =
  shape :: "int list"
  child :: "int list"
  data_subjects :: "nat list list"

definition numel :: "int list \<Rightarrow> nat" where
  "numel sh = nat (prod_list sh)"

text \<open>All multi-indices of a shape, in row-major order, and the row-major offset.\<close>

fun indices :: "int list \<Rightarrow> nat list list" where
  "indices [] = [[]]"
| "indices (d # ds) = concat (map (\<lambda>i. map ((#) i) (indices ds)) [0..<nat d])"

fun ravel :: "int list \<Rightarrow> nat list \<Rightarrow> nat" where
  "ravel (d # ds) (i # is) = i * numel ds + ravel ds is"
| "ravel _ _ = 0"

definition at :: "'a list \<Rightarrow> int list \<Rightarrow> nat list \<Rightarrow> 'a" where
  "at xs sh idx = xs ! ravel sh idx"

definition unions :: "nat list list \<Rightarrow> nat list" where
  "unions tss = fold (\<lambda>ts acc. List.union acc ts) tss []"

text \<open>
  Modelled from the spec: \<open>reshape\<close> (4.1, values as on plain arrays; all facets move
  in lock-step). As on plain arrays, one entry of the new shape may be \<open>-1\<close> and is
  then inferred; a new shape that does not hold the same number of elements fails.
\<close>

definition resolve_shape :: "int \<Rightarrow> int list \<Rightarrow> error + int list" where
  "resolve_shape sz ns =
     (if list_ex (\<lambda>d. d < -1) ns then Inl ValueError
      else if 1 < count_list ns (-1) then Inl ValueError
      else if count_list ns (-1) = 1 then
        (let known = prod_list (filter (\<lambda>d. d \<noteq> -1) ns) in
         if known \<noteq> 0 \<and> sz mod known = 0
         then Inr (map (\<lambda>d. if d = -1 then sz div known else d) ns)
         else Inl ValueError)
      else if prod_list ns = sz then Inr ns
      else Inl ValueError)"

definition tensor_reshape :: "tensor \<Rightarrow> int list \<Rightarrow> error + tensor" where
  "tensor_reshape t ns =
     (case resolve_shape (prod_list (shape t)) ns of
        Inl e \<Rightarrow> Inl e
      | Inr sh \<Rightarrow> Inr (t\<lparr>shape := sh\<rparr>))"

text \<open>
  Modelled from the spec: \<open>transpose\<close> with an axis permutation (4.1); axis \<open>j\<close> of the
  result is axis \<open>axes ! j\<close> of the operand. \<open>tensor_T\<close> is the attribute \<open>.T\<close>, which
  reverses the axes.
\<close>

definition unpermute :: "nat list \<Rightarrow> nat list \<Rightarrow> nat list" where
  "unpermute axes idx =
     map (\<lambda>k. idx ! (length (takeWhile (\<lambda>a. a \<noteq> k) axes))) [0..<length axes]"

definition permute_axes :: "nat list \<Rightarrow> tensor \<Rightarrow> tensor" where
  "permute_axes axes t =
     (let sh = map (\<lambda>a. shape t ! a) axes in
      \<lparr>shape = sh,
       child = map (\<lambda>idx. at (child t) (shape t) (unpermute axes idx)) (indices sh),
       data_subjects =
         map (\<lambda>idx. at (data_subjects t) (shape t) (unpermute axes idx)) (indices sh)\<rparr>)"

definition tensor_transpose :: "tensor \<Rightarrow> nat list \<Rightarrow> error + tensor" where
  "tensor_transpose t axes =
     (if sort axes = [0..<length (shape t)] then Inr (permute_axes axes t)
      else Inl ValueError)"

definition tensor_T :: "tensor \<Rightarrow> tensor" where
  "tensor_T t = permute_axes (rev [0..<length (shape t)]) t"

text \<open>
  Modelled from the spec: element-wise addition and multiplication with broadcasting
  (4.1). Shapes are aligned at their last axis; two extents are compatible when they
  are equal or one of them is 1. The tags of the two operands are united.
\<close>

fun bshape :: "int list \<Rightarrow> int list \<Rightarrow> int list option" where
  "bshape [] ys = Some ys"
| "bshape xs [] = Some xs"
| "bshape (x # xs) (y # ys) =
     (if x = y \<or> y = 1 then map_option ((#) x) (bshape xs ys)
      else if x = 1 then map_option ((#) y) (bshape xs ys)
      else None)"

definition broadcast_shapes :: "int list \<Rightarrow> int list \<Rightarrow> int list option" where
  "broadcast_shapes s1 s2 = map_option rev (bshape (rev s1) (rev s2))"

definition bidx :: "int list \<Rightarrow> nat list \<Rightarrow> nat list" where
  "bidx sh idx =
     map (\<lambda>(d, i). if d = 1 then 0 else i) (zip sh (drop (length idx - length sh) idx))"

definition elementwise :: "(int \<Rightarrow> int \<Rightarrow> int) \<Rightarrow> tensor \<Rightarrow> tensor \<Rightarrow> error + tensor" where
  "elementwise f a b =
     (case broadcast_shapes (shape a) (shape b) of
        None \<Rightarrow> Inl ValueError
      | Some sh \<Rightarrow>
          Inr \<lparr>shape = sh,
               child = map (\<lambda>idx. f (at (child a) (shape a) (bidx (shape a) idx))
                                     (at (child b) (shape b) (bidx (shape b) idx)))
                           (indices sh),
               data_subjects =
                 map (\<lambda>idx. List.union
                               (at (data_subjects a) (shape a) (bidx (shape a) idx))
                               (at (data_subjects b) (shape b) (bidx (shape b) idx)))
                     (indices sh)\<rparr>)"

definition tensor_add :: "tensor \<Rightarrow> tensor \<Rightarrow> error + tensor" where
  "tensor_add = elementwise (+)"

definition tensor_mul :: "tensor \<Rightarrow> tensor \<Rightarrow> error + tensor" where
  "tensor_mul = elementwise (*)"

text \<open>
  Modelled from the spec: matrix multiply (4.1) of two matrices; it fails when the
  operands are not contraction compatible. The tags of an output element are those of
  all elements contracted into it. The layer multiplies matrices only (the patch matrix
  and results of a reshape to two axes, or their transposes); operands of another rank
  are not described here and fail.
\<close>

definition tensor_matmul :: "tensor \<Rightarrow> tensor \<Rightarrow> error + tensor" where
  "tensor_matmul a b =
     (case (shape a, shape b) of
        ([m, k], [k', n]) \<Rightarrow>
          if k = k' then
            Inr \<lparr>shape = [m, n],
                 child =
                   map (\<lambda>idx. sum_list
                          (map (\<lambda>c. at (child a) (shape a) [idx ! 0, c]
                                      * at (child b) (shape b) [c, idx ! 1])
                               [0..<nat k]))
                       (indices [m, n]),
                 data_subjects =
                   map (\<lambda>idx. unions
                          (map (\<lambda>c. List.union
                                       (at (data_subjects a) (shape a) [idx ! 0, c])
                                       (at (data_subjects b) (shape b) [c, idx ! 1]))
                               [0..<nat k]))
                       (indices [m, n])\<rparr>
          else Inl ValueError
      | _ \<Rightarrow> Inl ValueError)"

text \<open>
  Modelled from the spec: reduction-sum over the given axes (4.1); the result keeps the
  other axes, and the tags are united across the reduced axes. An axis beyond the rank
  of the operand is an error, and so is an axis named twice.
\<close>

definition keep_axes :: "nat list \<Rightarrow> 'a list \<Rightarrow> 'a list" where
  "keep_axes axes xs =
     map snd (filter (\<lambda>(i, x). i \<notin> set axes) (zip [0..<length xs] xs))"

definition tensor_sum :: "nat list \<Rightarrow> tensor \<Rightarrow> error + tensor" where
  "tensor_sum axes t =
     (if list_ex (\<lambda>a. length (shape t) \<le> a) axes then Inl AxisError
      else if \<not> distinct axes then Inl ValueError
      else
        (let sh = keep_axes axes (shape t) in
         Inr \<lparr>shape = sh,
              child =
                map (\<lambda>ridx. sum_list
                       (map (at (child t) (shape t))
                            (filter (\<lambda>idx. keep_axes axes idx = ridx) (indices (shape t)))))
                    (indices sh),
              data_subjects =
                map (\<lambda>ridx. unions
                       (map (at (data_subjects t) (shape t))
                            (filter (\<lambda>idx. keep_axes axes idx = ridx) (indices (shape t)))))
                    (indices sh)\<rparr>))"

text \<open>
  Modelled from the spec: \<open>np.zeros\<close>, the zero bias as a plain numeric array; a
  negative extent is an error.
\<close>

definition zeros :: "int list \<Rightarrow> error + tensor" where
  "zeros sh =
     (if list_ex (\<lambda>d. d < 0) sh then Inl ValueError
      else Inr \<lparr>shape = sh, child = replicate (numel sh) 0,
                data_subjects = replicate (numel sh) []\<rparr>)"

subsection \<open>Patch extraction and patch scatter\<close>

text \<open>
  Modelled from the spec: \<open>im2col_indices\<close> (4.2, not among the sources). For an input
  of shape \<open>(N, C, H, W)\<close> the result has shape \<open>(C\<cdot>kh\<cdot>kw, N\<cdot>out_h\<cdot>out_w)\<close> with
  \<open>out_h = (H + 2\<cdot>padding - kh) // stride + 1\<close>; row \<open>(c, ki, kj)\<close>, column \<open>(n, i, j)\<close>
  reads the zero-padded input at \<open>(n, c, i\<cdot>stride + ki, j\<cdot>stride + kj)\<close>. A padding
  element has value 0 and the empty tag. The spec describes the result for stride at
  least 1, non-negative padding and a window that fits the padded image; elsewhere the
  model fails (stride 0 with the division error of \<open>//\<close>).
\<close>

definition conv_out :: "int \<Rightarrow> int \<Rightarrow> int \<Rightarrow> int \<Rightarrow> int" where
  "conv_out h k p s = (h + 2 * p - k) div s + 1"

definition padded_at ::
  "'a list \<Rightarrow> 'a \<Rightarrow> int list \<Rightarrow> int \<Rightarrow> int \<Rightarrow> nat list \<Rightarrow> 'a" where
  "padded_at xs pad x_shape p s idx =
     (case (x_shape, idx) of
        ([N, C, H, W], [c, ki, kj, n, i, j]) \<Rightarrow>
          (let h = int i * s + int ki - p; w = int j * s + int kj - p in
           if 0 \<le> h \<and> h < H \<and> 0 \<le> w \<and> w < W
           then at xs x_shape [n, c, nat h, nat w] else pad)
      | _ \<Rightarrow> pad)"

definition im2col_indices :: "tensor \<Rightarrow> int \<Rightarrow> int \<Rightarrow> int \<Rightarrow> int \<Rightarrow> error + tensor" where
  "im2col_indices x kh kw p s =
     (case shape x of
        [N, C, H, W] \<Rightarrow>
          if s = 0 then Inl ZeroDivisionError
          else if s < 0 \<or> p < 0 \<or> kh < 0 \<or> kw < 0 \<or> H + 2 * p < kh \<or> W + 2 * p < kw
          then Inl ValueError
          else
            (let oh = conv_out H kh p s; ow = conv_out W kw p s in
             Inr \<lparr>shape = [C * kh * kw, N * oh * ow],
                  child = map (padded_at (child x) 0 (shape x) p s)
                              (indices [C, kh, kw, N, oh, ow]),
                  data_subjects = map (padded_at (data_subjects x) [] (shape x) p s)
                                      (indices [C, kh, kw, N, oh, ow])\<rparr>)
      | _ \<Rightarrow> Inl ValueError)"

text \<open>
  Modelled from the spec: \<open>col2im_indices\<close> (4.3, not among the sources). The result has
  the target image shape; each element is the sum of the matrix entries of every patch
  position that read it, contributions to the padding are dropped, and the provenance
  given as argument is attached to the result. The spec describes a matrix shaped like
  the \<open>im2col\<close> output; the model accepts every matrix with that number of elements and
  reads it in that layout, and fails on any other.
\<close>

definition col2im_indices ::
  "tensor \<Rightarrow> int list \<Rightarrow> nat list list \<Rightarrow> int \<Rightarrow> int \<Rightarrow> int \<Rightarrow> int \<Rightarrow> error + tensor" where
  "col2im_indices cols x_shape ds kh kw p s =
     (case x_shape of
        [N, C, H, W] \<Rightarrow>
          if s = 0 then Inl ZeroDivisionError
          else if s < 0 \<or> p < 0 \<or> kh < 0 \<or> kw < 0 \<or> H + 2 * p < kh \<or> W + 2 * p < kw
          then Inl ValueError
          else
            (let oh = conv_out H kh p s; ow = conv_out W kw p s in
             if length (shape cols) = 2
                \<and> prod_list (shape cols) = (C * kh * kw) * (N * oh * ow)
             then
               Inr \<lparr>shape = [N, C, H, W],
                    child =
                      map (\<lambda>idx.
                             (case idx of
                                [n, c, h, w] \<Rightarrow>
                                  sum_list
                                    (map (\<lambda>q. at (child cols) [C, kh, kw, N, oh, ow]
                                                 [c, q ! 0, q ! 1, n, q ! 2, q ! 3])
                                       (filter
                                          (\<lambda>q. int (q ! 2) * s + int (q ! 0) - p = int h
                                              \<and> int (q ! 3) * s + int (q ! 1) - p = int w)
                                          (indices [kh, kw, oh, ow])))
                              | _ \<Rightarrow> 0))
                          (indices [N, C, H, W]),
                    data_subjects = ds\<rparr>
             else Inl ValueError)
      | _ \<Rightarrow> Inl ValueError)"

subsection \<open>Activation and initialisation strategies\<close>

text \<open>
  Modelled from the spec: the activation strategy interface (section 6, the module
  \<open>activations\<close> is not among the sources), \<open>forward(tensor) -> tensor\<close> and
  \<open>derivative(tensor) -> tensor\<close>. \<open>activations.get\<close> hands the configured strategy, or
  \<open>None\<close>, through. The initialisation strategy (\<open>XavierInitialization\<close>, random and
  not among the sources) is a function from the requested shape to a plain array.
\<close>

record activation =
  act_forward :: "tensor \<Rightarrow> tensor"
  act_derivative :: "tensor \<Rightarrow> tensor"

text \<open>
  Modelled from the spec: one activation strategy, the rectifier, used below to run the
  layer on concrete inputs: \<open>forward\<close> replaces negative values by 0, \<open>derivative\<close> is 1
  where its argument is positive and 0 elsewhere.
\<close>

definition relu :: activation where
  "relu = \<lparr>act_forward = (\<lambda>t. t\<lparr>child := map (max 0) (child t)\<rparr>),
           act_derivative = (\<lambda>t. t\<lparr>child := map (\<lambda>v. if 0 < v then 1 else 0) (child t)\<rparr>)\<rparr>"

text \<open>
  Modelled from the spec: one initialisation strategy, used below to run the layer on
  concrete inputs: the plain array of the requested shape with every weight 1.
\<close>

definition ones :: "int list \<Rightarrow> tensor" where
  "ones sh = \<lparr>shape = sh, child = replicate (numel sh) 1,
             data_subjects = replicate (numel sh) []\<rparr>"

subsection \<open>The layer\<close>

text \<open>
  \<open>filter_size\<close> is a tuple, an int, or something else (\<open>isinstance\<close> in \<open>connect_to\<close>).
  An attribute that holds \<open>None\<close> is \<open>None\<close> here; \<open>ds_cached\<close> is not set by
  \<open>__init__\<close>, and \<open>None\<close> stands for the missing attribute.
\<close>

datatype filter_size = FilterTuple "int list" | FilterInt int | FilterOther

record layer =
  nb_filter :: int
  filter_size :: filter_size
  input_shape :: "int list option"
  stride :: int
  padding :: int
  W :: "tensor option"
  dW :: "tensor option"
  b :: "tensor option"
  db :: "tensor option"
  out_shape :: "int list option"
  last_output :: "tensor option"
  last_input :: "tensor option"
  X_col :: "tensor option"
  ds_cached :: "nat list list option"
  init :: "int list \<Rightarrow> tensor"
  activation :: "activation option"

definition and_then :: "error + 'a \<Rightarrow> ('a \<Rightarrow> error + 'b) \<Rightarrow> error + 'b" where
  "and_then m f = (case m of Inl e \<Rightarrow> Inl e | Inr x \<Rightarrow> f x)"

text \<open>Unpacking a sequence into four names; any other length is a \<open>ValueError\<close>.\<close>

definition unpack4 :: "'a list \<Rightarrow> error + ('a \<times> 'a \<times> 'a \<times> 'a)" where
  "unpack4 xs = (case xs of [x0, x1, x2, x3] \<Rightarrow> Inr (x0, x1, x2, x3) | _ \<Rightarrow> Inl ValueError)"

text \<open>
  \<open>__init__\<close>. The last argument is the initialisation strategy that the constructor
  creates (\<open>XavierInitialization()\<close>).
\<close>

definition Convolution ::
  "int \<Rightarrow> filter_size \<Rightarrow> int list option \<Rightarrow> int \<Rightarrow> int \<Rightarrow> activation option
     \<Rightarrow> (int list \<Rightarrow> tensor) \<Rightarrow> layer" where
  "Convolution nb_filter' filter_size' input_shape' stride' padding' activation' xavier =
     \<lparr>nb_filter = nb_filter', filter_size = filter_size', input_shape = input_shape',
      stride = stride', padding = padding',
      W = None, dW = None, b = None, db = None,
      out_shape = None, last_output = None, last_input = None, X_col = None,
      ds_cached = None, init = xavier, activation = activation'\<rparr>"

text \<open>
  \<open>connect_to\<close>. The two \<open>assert\<close>s raise \<open>AssertionError\<close>; \<open>len\<close> of a predecessor's
  \<open>out_shape\<close> that is \<open>None\<close> is a \<open>TypeError\<close>; a filter tuple that does not have two
  entries fails to unpack; \<open>//\<close> by a zero stride is a \<open>ZeroDivisionError\<close>.
\<close>

definition filter_dims :: "filter_size \<Rightarrow> error + (int \<times> int)" where
  "filter_dims fs =
     (case fs of
        FilterTuple [filter_height, filter_width] \<Rightarrow> Inr (filter_height, filter_width)
      | FilterTuple _ \<Rightarrow> Inl ValueError
      | FilterInt k \<Rightarrow> Inr (k, k)
      | FilterOther \<Rightarrow> Inl NotImplementedError)"

definition connect_input_shape :: "layer \<Rightarrow> layer option \<Rightarrow> error + int list" where
  "connect_input_shape self prev_layer =
     (case prev_layer of
        None \<Rightarrow>
          (case input_shape self of
             None \<Rightarrow> Inl AssertionError
           | Some sh \<Rightarrow> if length sh = 4 then Inr sh else Inl AssertionError)
      | Some prev \<Rightarrow>
          (case out_shape prev of
             None \<Rightarrow> Inl TypeError
           | Some sh \<Rightarrow> if length sh = 4 then Inr sh else Inl AssertionError))"

definition connect_to :: "layer \<Rightarrow> layer option \<Rightarrow> layer \<times> (error + unit)" where
  "connect_to self prev_layer =
     (case and_then (connect_input_shape self prev_layer) unpack4 of
        Inl e \<Rightarrow> (self, Inl e)
      | Inr (nb_batch, pre_nb_filter, pre_height, pre_width) \<Rightarrow>
          (case filter_dims (filter_size self) of
             Inl e \<Rightarrow> (self, Inl e)
           | Inr (filter_height, filter_width) \<Rightarrow>
               if stride self = 0 then (self, Inl ZeroDivisionError)
               else
                 (let height =
                        (pre_height - filter_height + 2 * padding self) div stride self + 1;
                      width =
                        (pre_width - filter_width + 2 * padding self) div stride self + 1;
                      self1 = self\<lparr>out_shape := Some [nb_batch, nb_filter self, height, width]\<rparr>;
                      self2 = self1\<lparr>W := Some (init self1
                                [nb_filter self1, pre_nb_filter, filter_height, filter_width])\<rparr>
                  in (case zeros [nb_filter self2] of
                        Inl e \<Rightarrow> (self2, Inl e)
                      | Inr z \<Rightarrow> (self2\<lparr>b := Some z\<rparr>, Inr ())))))"

text \<open>
  \<open>forward\<close>. Reading \<open>.shape\<close> of a weight that is \<open>None\<close> is an \<open>AttributeError\<close>,
  unpacking an \<open>out_shape\<close> that is \<open>None\<close> a \<open>TypeError\<close>, adding a bias that is \<open>None\<close>
  a \<open>TypeError\<close>. The value returned is \<open>out\<close>.
\<close>

definition forward :: "layer \<Rightarrow> tensor \<Rightarrow> layer \<times> (error + tensor)" where
  "forward self input =
     (let self1 = self\<lparr>last_input := Some input\<rparr> in
      case W self1 of
        None \<Rightarrow> (self1, Inl AttributeError)
      | Some w \<Rightarrow>
     (case unpack4 (shape w) of
        Inl e \<Rightarrow> (self1, Inl e)
      | Inr (n_filters, d_filter, h_filter, w_filter) \<Rightarrow>
     (case unpack4 (shape input) of
        Inl e \<Rightarrow> (self1, Inl e)
      | Inr (n_x, d_x, h_x, w_x) \<Rightarrow>
     (case (case out_shape self1 of None \<Rightarrow> Inl TypeError | Some sh \<Rightarrow> unpack4 sh) of
        Inl e \<Rightarrow> (self1, Inl e)
      | Inr (_, _, h_out, w_out) \<Rightarrow>
     (let self2 = self1\<lparr>ds_cached := Some (data_subjects input)\<rparr> in
      case im2col_indices input h_filter w_filter (padding self2) (stride self2) of
        Inl e \<Rightarrow> (self2, Inl e)
      | Inr x_col \<Rightarrow>
     (let self3 = self2\<lparr>X_col := Some x_col\<rparr> in
      case
        and_then (tensor_reshape w [n_filters, -1]) (\<lambda>W_col.
        and_then (tensor_matmul (tensor_T x_col) (tensor_T W_col)) (\<lambda>xw.
        and_then (case b self3 of None \<Rightarrow> Inl TypeError | Some bias \<Rightarrow> tensor_add xw bias)
          (\<lambda>out.
        and_then (tensor_reshape out [n_filters, h_out, w_out, n_x]) (\<lambda>out.
        tensor_transpose out [3, 0, 1, 2]))))
      of
        Inl e \<Rightarrow> (self3, Inl e)
      | Inr out \<Rightarrow>
          (self3\<lparr>last_output :=
                    Some (case activation self3 of
                            Some a \<Rightarrow> act_forward a out
                          | None \<Rightarrow> out)\<rparr>,
           Inr out)))))))"

text \<open>
  \<open>backward\<close>. The \<open>print\<close> calls are left out, except that the one reading
  \<open>self.X_col.shape\<close> fails with an \<open>AttributeError\<close> when \<open>X_col\<close> is \<open>None\<close>. The call
  of \<open>col2im_indices\<close> evaluates \<open>self.input_shape\<close> and \<open>self.ds_cached\<close> first; a
  target shape that is \<open>None\<close> cannot be unpacked (\<open>TypeError\<close>).
\<close>

definition backward :: "layer \<Rightarrow> tensor \<Rightarrow> layer \<times> (error + tensor)" where
  "backward self pre_grad =
     (case W self of
        None \<Rightarrow> (self, Inl AttributeError)
      | Some w \<Rightarrow>
     (case unpack4 (shape w) of
        Inl e \<Rightarrow> (self, Inl e)
      | Inr (n_filter, d_filter, h_filter, w_filter) \<Rightarrow>
     (case
        and_then (case activation self of
                    Some a \<Rightarrow> tensor_mul pre_grad (act_derivative a pre_grad)
                  | None \<Rightarrow> Inr pre_grad) (\<lambda>pre_grads.
        and_then (tensor_sum [0, 2, 3] pre_grads) (\<lambda>db'.
        and_then (tensor_reshape db' [n_filter, -1]) (\<lambda>db''. Inr (pre_grads, db''))))
      of
        Inl e \<Rightarrow> (self, Inl e)
      | Inr (pre_grads, db'') \<Rightarrow>
     (let self1 = self\<lparr>db := Some db''\<rparr> in
      case
        and_then (tensor_transpose pre_grads [1, 2, 3, 0]) (\<lambda>pre_grads_reshaped.
        and_then (tensor_reshape pre_grads_reshaped [n_filter, -1]) (\<lambda>pre_grads_reshaped.
        and_then (case X_col self1 of None \<Rightarrow> Inl AttributeError | Some x_col \<Rightarrow> Inr x_col)
          (\<lambda>x_col.
        and_then (tensor_matmul pre_grads_reshaped (tensor_T x_col)) (\<lambda>dW'.
        and_then (tensor_reshape dW' (shape w)) (\<lambda>dW''. Inr (pre_grads_reshaped, dW''))))))
      of
        Inl e \<Rightarrow> (self1, Inl e)
      | Inr (pre_grads_reshaped, dW'') \<Rightarrow>
     (let self2 = self1\<lparr>dW := Some dW''\<rparr> in
      (self2,
        and_then (tensor_reshape w [n_filter, -1]) (\<lambda>W_reshape.
        and_then (tensor_matmul (tensor_T pre_grads_reshaped) W_reshape) (\<lambda>dX_col.
        and_then (case ds_cached self2 of None \<Rightarrow> Inl AttributeError | Some ds \<Rightarrow> Inr ds)
          (\<lambda>ds.
        and_then (case input_shape self2 of None \<Rightarrow> Inl TypeError | Some sh \<Rightarrow> Inr sh)
          (\<lambda>x_shape.
        col2im_indices dX_col x_shape ds h_filter w_filter
          (padding self2) (stride self2)))))))))))"

text \<open>The properties \<open>params\<close> (getter and setter) and \<open>grads\<close>.\<close>

definition params :: "layer \<Rightarrow> tensor option \<times> tensor option" where
  "params self = (W self, b self)"

definition set_params :: "layer \<Rightarrow> tensor list \<Rightarrow> layer \<times> (error + unit)" where
  "set_params self new_params =
     (if length new_params = 2
      then (self\<lparr>W := Some (new_params ! 0), b := Some (new_params ! 1)\<rparr>, Inr ())
      else (self, Inl AssertionError))"

definition grads :: "layer \<Rightarrow> tensor option \<times> tensor option" where
  "grads self = (dW self, db self)"

subsection \<open>Concrete layers and tensors\<close>

text \<open>
  The layers and tensors on which the methods are run below. \<open>conv_relu\<close> is a connected
  layer with one 1\<times>1 filter and the rectifier as activation; \<open>conv_first\<close> is the same
  layer without activation, and \<open>conv_second\<close> is a layer constructed without input shape
  and connected to \<open>conv_first\<close> as its predecessor; \<open>conv_three\<close> has one 3\<times>3 filter
  and is connected with the input shape \<open>(1, 1, 3, 3)\<close>.
\<close>

definition conv_relu :: layer where
  "conv_relu =
     fst (connect_to (Convolution 1 (FilterInt 1) (Some [1, 1, 1, 1]) 1 0 (Some relu) ones) None)"

definition conv_first :: layer where
  "conv_first =
     fst (connect_to (Convolution 1 (FilterInt 1) (Some [1, 1, 1, 1]) 1 0 None ones) None)"

definition conv_second :: layer where
  "conv_second =
     fst (connect_to (Convolution 1 (FilterInt 1) None 1 0 None ones) (Some conv_first))"

definition conv_three :: layer where
  "conv_three =
     fst (connect_to (Convolution 1 (FilterInt 3) (Some [1, 1, 3, 3]) 1 0 None ones) None)"

definition x_neg :: tensor where
  "x_neg = \<lparr>shape = [1, 1, 1, 1], child = [-3], data_subjects = [[7]]\<rparr>"

definition g_pos :: tensor where
  "g_pos = \<lparr>shape = [1, 1, 1, 1], child = [5], data_subjects = [[]]\<rparr>"

section \<open>Properties\<close>

subsection \<open>Shapes of the tensor operations\<close>

lemma tensor_reshape_infer:
  "1 \<le> n \<Longrightarrow> prod_list (shape t) = n * k \<Longrightarrow> tensor_reshape t [n, -1] = Inr (t\<lparr>shape := [n, k]\<rparr>)"
  by (simp add: tensor_reshape_def resolve_shape_def)

lemma tensor_reshape_4:
  "0 \<le> a \<Longrightarrow> 0 \<le> b' \<Longrightarrow> 0 \<le> c \<Longrightarrow> 0 \<le> d \<Longrightarrow> prod_list (shape t) = a * b' * c * d \<Longrightarrow>
   tensor_reshape t [a, b', c, d] = Inr (t\<lparr>shape := [a, b', c, d]\<rparr>)"
  by (simp add: tensor_reshape_def resolve_shape_def mult.assoc)

lemma upt_2: "[0..<2] = [0, Suc 0]" by (simp add: upt_rec)
lemma upt_4: "[0..<4] = [0, 1, 2, 3]" by (simp add: upt_rec)

lemma shape_tensor_T2: "shape t = [m, n] \<Longrightarrow> shape (tensor_T t) = [n, m]"
  by (simp add: tensor_T_def permute_axes_def Let_def upt_2)

lemma tensor_matmul_shape:
  "shape a = [m, k] \<Longrightarrow> shape c = [k, n] \<Longrightarrow> \<exists>r. tensor_matmul a c = Inr r \<and> shape r = [m, n]"
  by (simp add: tensor_matmul_def)

lemma tensor_matmul_mismatch:
  "shape a = [m, k] \<Longrightarrow> shape c = [k', n] \<Longrightarrow> k \<noteq> k' \<Longrightarrow> tensor_matmul a c = Inl ValueError"
  by (simp add: tensor_matmul_def)

lemma tensor_add_bias_shape:
  "shape a = [m, f] \<Longrightarrow> shape c = [f] \<Longrightarrow> \<exists>r. tensor_add a c = Inr r \<and> shape r = [m, f]"
  by (simp add: tensor_add_def elementwise_def broadcast_shapes_def)

lemma tensor_transpose_3012:
  "shape t = [a, b', c, d] \<Longrightarrow> \<exists>r. tensor_transpose t [3, 0, 1, 2] = Inr r \<and> shape r = [d, a, b', c]"
  by (simp add: tensor_transpose_def permute_axes_def Let_def upt_4)

lemma im2col_indices_shape:
  "shape x = [N, C, H, Wd] \<Longrightarrow> 1 \<le> s \<Longrightarrow> 0 \<le> p \<Longrightarrow> 0 \<le> kh \<Longrightarrow> 0 \<le> kw \<Longrightarrow>
   kh \<le> H + 2 * p \<Longrightarrow> kw \<le> Wd + 2 * p \<Longrightarrow>
   \<exists>r. im2col_indices x kh kw p s = Inr r
     \<and> shape r = [C * kh * kw, N * conv_out H kh p s * conv_out Wd kw p s]"
  by (simp add: im2col_indices_def Let_def)

lemma zeros_1: "0 \<le> n \<Longrightarrow> \<exists>z. zeros [n] = Inr z \<and> shape z = [n]"
  by (simp add: zeros_def)

lemma conv_out_pos: "1 \<le> s \<Longrightarrow> k \<le> h + 2 * p \<Longrightarrow> 1 \<le> conv_out h k p s"
  by (simp add: conv_out_def pos_imp_zdiv_nonneg_iff)

lemma unpack4_length: "length xs \<noteq> 4 \<Longrightarrow> unpack4 xs = Inl ValueError"
  by (auto simp: unpack4_def split: list.splits)

lemma unpack4_4: "unpack4 [x0, x1, x2, x3] = Inr (x0, x1, x2, x3)"
  by (simp add: unpack4_def)

lemma bshape_same: "bshape xs xs = Some xs"
  by (induction xs) auto

lemma tensor_mul_same_shape:
  "shape c = shape a \<Longrightarrow> \<exists>r. tensor_mul a c = Inr r \<and> shape r = shape a"
  by (simp add: tensor_mul_def elementwise_def broadcast_shapes_def bshape_same)

lemma tensor_sum_023:
  "shape t = [a, b', c, d] \<Longrightarrow> \<exists>r. tensor_sum [0, 2, 3] t = Inr r \<and> shape r = [b']"
  by (simp add: tensor_sum_def keep_axes_def upt_4 Let_def del: indices.simps)

lemma tensor_transpose_1230:
  "shape t = [a, b', c, d] \<Longrightarrow> \<exists>r. tensor_transpose t [1, 2, 3, 0] = Inr r \<and> shape r = [b', c, d, a]"
  by (simp add: tensor_transpose_def permute_axes_def Let_def upt_4)

lemma col2im_indices_shape:
  "length (shape cols) = 2 \<Longrightarrow>
   prod_list (shape cols) = (C * kh * kw) * (N * conv_out H kh p s * conv_out Wd kw p s) \<Longrightarrow>
   1 \<le> s \<Longrightarrow> 0 \<le> p \<Longrightarrow> 0 \<le> kh \<Longrightarrow> 0 \<le> kw \<Longrightarrow> kh \<le> H + 2 * p \<Longrightarrow> kw \<le> Wd + 2 * p \<Longrightarrow>
   \<exists>r. col2im_indices cols [N, C, H, Wd] ds kh kw p s = Inr r \<and> shape r = [N, C, H, Wd]"
  by (simp add: col2im_indices_def Let_def del: indices.simps)

subsection \<open>Connecting and the forward pass, step by step\<close>

lemma connect_to_ok:
  assumes "stride self \<noteq> 0" "0 \<le> nb_filter self"
    and fs: "filter_size self = FilterTuple [kh, kw] \<or> (filter_size self = FilterInt kh \<and> kw = kh)"
    and src: "(prev_layer = None \<and> input_shape self = Some [N, C, H, Wd])
              \<or> (\<exists>prev. prev_layer = Some prev \<and> out_shape prev = Some [N, C, H, Wd])"
  shows "\<exists>z. zeros [nb_filter self] = Inr z \<and> shape z = [nb_filter self] \<and>
           connect_to self prev_layer =
           (self\<lparr>out_shape := Some [N, nb_filter self, conv_out H kh (padding self) (stride self),
                                      conv_out Wd kw (padding self) (stride self)],
                 W := Some (init self [nb_filter self, C, kh, kw]), b := Some z\<rparr>, Inr ())"
proof -
  have cis: "connect_input_shape self prev_layer = Inr [N, C, H, Wd]"
    using src by (auto simp: connect_input_shape_def)
  have fd: "filter_dims (filter_size self) = Inr (kh, kw)"
    using fs by (auto simp: filter_dims_def)
  obtain z where z: "zeros [nb_filter self] = Inr z" "shape z = [nb_filter self]"
    using zeros_1 [of "nb_filter self"] assms(2) by auto
  have "connect_to self prev_layer =
           (self\<lparr>out_shape := Some [N, nb_filter self, conv_out H kh (padding self) (stride self),
                                      conv_out Wd kw (padding self) (stride self)],
                 W := Some (init self [nb_filter self, C, kh, kw]), b := Some z\<rparr>, Inr ())"
    using assms(1) z(1)
    by (simp add: connect_to_def cis fd and_then_def unpack4_4 Let_def conv_out_def algebra_simps)
  with z show ?thesis by blast
qed

lemma forward_connected_state:
  assumes w: "W self = Some w" "shape w = [F, C, kh, kw]"
    and z: "b self = Some z" "shape z = [F]"
    and os: "out_shape self = Some [nb, nf, conv_out H kh (padding self) (stride self),
                                   conv_out Wd kw (padding self) (stride self)]"
    and cfg: "1 \<le> stride self" "0 \<le> padding self" "1 \<le> F" "1 \<le> kh" "1 \<le> kw"
    and x: "shape x = [N, C, H, Wd]"
    and fit: "0 \<le> N" "kh \<le> H + 2 * padding self" "kw \<le> Wd + 2 * padding self"
  shows "\<exists>x_col out lo.
           forward self x =
             (self\<lparr>last_input := Some x, ds_cached := Some (data_subjects x),
                   X_col := Some x_col, last_output := Some lo\<rparr>, Inr out)
           \<and> shape x_col = [C * kh * kw, N * conv_out H kh (padding self) (stride self)
                                            * conv_out Wd kw (padding self) (stride self)]
           \<and> shape out = [N, F, conv_out H kh (padding self) (stride self),
                           conv_out Wd kw (padding self) (stride self)]"
proof -
  define p where "p = padding self"
  define s where "s = stride self"
  define oh where "oh = conv_out H kh p s"
  define ow where "ow = conv_out Wd kw p s"
  have oh_pos: "0 \<le> oh" and ow_pos: "0 \<le> ow"
    using conv_out_pos [of s kh H p] conv_out_pos [of s kw Wd p] cfg fit
    by (simp_all add: oh_def ow_def p_def s_def)
  have "\<exists>r. im2col_indices x kh kw p s = Inr r
           \<and> shape r = [C * kh * kw, N * conv_out H kh p s * conv_out Wd kw p s]"
    using cfg fit unfolding p_def s_def by (intro im2col_indices_shape [OF x]) simp_all
  then obtain x_col where xc: "im2col_indices x kh kw p s = Inr x_col"
      "shape x_col = [C * kh * kw, N * oh * ow]"
    unfolding oh_def ow_def by blast
  have wc: "tensor_reshape w [F, -1] = Inr (w\<lparr>shape := [F, C * kh * kw]\<rparr>)"
    using cfg by (intro tensor_reshape_infer) (simp_all add: w mult.assoc)
  obtain xw where xw:
      "tensor_matmul (tensor_T x_col) (tensor_T (w\<lparr>shape := [F, C * kh * kw]\<rparr>)) = Inr xw"
      "shape xw = [N * oh * ow, F]"
    using tensor_matmul_shape [of "tensor_T x_col" "N * oh * ow" "C * kh * kw"
        "tensor_T (w\<lparr>shape := [F, C * kh * kw]\<rparr>)" F]
    by (auto simp: shape_tensor_T2 [OF xc(2)] shape_tensor_T2 [of _ F "C * kh * kw"])
  obtain o1 where o1: "tensor_add xw z = Inr o1" "shape o1 = [N * oh * ow, F]"
    using tensor_add_bias_shape [OF xw(2) z(2)] by auto
  have o2: "tensor_reshape o1 [F, oh, ow, N] = Inr (o1\<lparr>shape := [F, oh, ow, N]\<rparr>)"
    using cfg fit oh_pos ow_pos
    by (intro tensor_reshape_4) (simp_all add: o1)
  obtain out where out:
      "tensor_transpose (o1\<lparr>shape := [F, oh, ow, N]\<rparr>) [3, 0, 1, 2] = Inr out"
      "shape out = [N, F, oh, ow]"
    using tensor_transpose_3012 [of "o1\<lparr>shape := [F, oh, ow, N]\<rparr>" F oh ow N] by auto
  have "forward self x =
          (self\<lparr>last_input := Some x, ds_cached := Some (data_subjects x),
                X_col := Some x_col,
                last_output := Some (case activation self of
                                       Some a \<Rightarrow> act_forward a out | None \<Rightarrow> out)\<rparr>,
           Inr out)"
    using out(1)
    by (simp add: forward_def Let_def unpack4_4 w z os x xc wc xw o1 o2
          and_then_def p_def [symmetric] s_def [symmetric] oh_def [symmetric] ow_def [symmetric])
  with out(2) xc(2) show ?thesis
    unfolding oh_def ow_def p_def s_def by blast
qed

lemma forward_connected:
  assumes "W self = Some w" "shape w = [F, C, kh, kw]"
    and "b self = Some z" "shape z = [F]"
    and "out_shape self = Some [nb, nf, conv_out H kh (padding self) (stride self),
                                conv_out Wd kw (padding self) (stride self)]"
    and "1 \<le> stride self" "0 \<le> padding self" "1 \<le> F" "1 \<le> kh" "1 \<le> kw"
    and "shape x = [N, C, H, Wd]"
    and "0 \<le> N" "kh \<le> H + 2 * padding self" "kw \<le> Wd + 2 * padding self"
  shows "\<exists>self2 out. forward self x = (self2, Inr out)
           \<and> shape out = [N, F, conv_out H kh (padding self) (stride self),
                           conv_out Wd kw (padding self) (stride self)]"
  using forward_connected_state [OF assms] by blast

lemma forward_rank_mismatch:
  assumes "W self = Some w" "length (shape w) = 4" "length (shape x) \<noteq> 4"
  shows "forward self x = (self\<lparr>last_input := Some x\<rparr>, Inl ValueError)"
proof -
  obtain f c kh kw where "shape w = [f, c, kh, kw]"
    using assms(2) by (auto simp: length_Suc_conv eval_nat_numeral)
  then show ?thesis
    using assms(1) unpack4_length [OF assms(3)]
    by (simp add: forward_def Let_def unpack4_4)
qed

lemma forward_channel_mismatch:
  assumes w: "W self = Some w" "shape w = [F, Cw, kh, kw]"
    and os: "out_shape self = Some [o0, o1, o2, o3]"
    and cfg: "1 \<le> stride self" "0 \<le> padding self" "1 \<le> F" "1 \<le> kh" "1 \<le> kw"
    and x: "shape x = [N, C, H, Wd]"
    and fit: "kh \<le> H + 2 * padding self" "kw \<le> Wd + 2 * padding self"
    and ne: "C \<noteq> Cw"
  shows "snd (forward self x) = Inl ValueError"
proof -
  obtain x_col where xc: "im2col_indices x kh kw (padding self) (stride self) = Inr x_col"
      "shape x_col = [C * kh * kw, N * conv_out H kh (padding self) (stride self)
                        * conv_out Wd kw (padding self) (stride self)]"
    using im2col_indices_shape [OF x, of "stride self" "padding self" kh kw] cfg fit by auto
  have wc: "tensor_reshape w [F, -1] = Inr (w\<lparr>shape := [F, Cw * kh * kw]\<rparr>)"
    using cfg by (intro tensor_reshape_infer) (simp_all add: w mult.assoc)
  have "C * kh * kw \<noteq> Cw * kh * kw"
    using ne cfg by simp
  then have mm: "tensor_matmul (tensor_T x_col) (tensor_T (w\<lparr>shape := [F, Cw * kh * kw]\<rparr>))
      = Inl ValueError"
    by (intro tensor_matmul_mismatch [OF shape_tensor_T2 [OF xc(2)]
          shape_tensor_T2 [of _ F "Cw * kh * kw"]]) simp_all
  show ?thesis
    by (simp add: forward_def Let_def unpack4_4 w os x xc wc mm and_then_def)
qed

subsection \<open>The backward pass, step by step\<close>

text \<open>
  After a forward pass on a layer that holds its own input shape, \<open>backward\<close> on a
  gradient of the output shape returns a gradient of the input shape. The derivative of
  the activation is assumed to keep the shape of its argument.
\<close>

lemma backward_connected:
  assumes w: "W self = Some w" "shape w = [F, C, kh, kw]"
    and xc: "X_col self = Some x_col"
      "shape x_col = [C * kh * kw, N * conv_out H kh (padding self) (stride self)
                        * conv_out Wd kw (padding self) (stride self)]"
    and ds: "ds_cached self = Some ds"
    and ish: "input_shape self = Some [N, C, H, Wd]"
    and cfg: "1 \<le> stride self" "0 \<le> padding self" "1 \<le> F" "1 \<le> kh" "1 \<le> kw"
    and fit: "0 \<le> N" "0 \<le> C" "kh \<le> H + 2 * padding self" "kw \<le> Wd + 2 * padding self"
    and g: "shape g = [N, F, conv_out H kh (padding self) (stride self),
                       conv_out Wd kw (padding self) (stride self)]"
    and act: "activation self = None
              \<or> (\<exists>a. activation self = Some a \<and> shape (act_derivative a g) = shape g)"
  shows "\<exists>self' dX. backward self g = (self', Inr dX) \<and> shape dX = [N, C, H, Wd]"
proof -
  define p where "p = padding self"
  define s where "s = stride self"
  define oh where "oh = conv_out H kh p s"
  define ow where "ow = conv_out Wd kw p s"
  note defs = p_def [symmetric] s_def [symmetric] oh_def [symmetric] ow_def [symmetric]
  have shg: "shape g = [N, F, oh, ow]" and shx: "shape x_col = [C * kh * kw, N * oh * ow]"
    using g xc(2) by (simp_all add: defs)
  obtain pg where pg:
      "(case activation self of Some a \<Rightarrow> tensor_mul g (act_derivative a g) | None \<Rightarrow> Inr g)
         = Inr pg" "shape pg = [N, F, oh, ow]"
  proof (cases "activation self")
    case None
    then show ?thesis using that shg by simp
  next
    case (Some a)
    then have "shape (act_derivative a g) = shape g" using act by auto
    from tensor_mul_same_shape [OF this] Some shg show ?thesis
      using that by auto
  qed
  obtain db1 where db1: "tensor_sum [0, 2, 3] pg = Inr db1" "shape db1 = [F]"
    using tensor_sum_023 [OF pg(2)] by auto
  have db2: "tensor_reshape db1 [F, -1] = Inr (db1\<lparr>shape := [F, 1]\<rparr>)"
    using cfg by (intro tensor_reshape_infer) (simp_all add: db1)
  obtain pt where pt: "tensor_transpose pg [1, 2, 3, 0] = Inr pt" "shape pt = [F, oh, ow, N]"
    using tensor_transpose_1230 [OF pg(2)] by auto
  have pr: "tensor_reshape pt [F, -1] = Inr (pt\<lparr>shape := [F, N * oh * ow]\<rparr>)"
    using cfg by (intro tensor_reshape_infer) (simp_all add: pt mult.assoc mult.left_commute)
  let ?pr = "pt\<lparr>shape := [F, N * oh * ow]\<rparr>"
  obtain dW1 where dW1: "tensor_matmul ?pr (tensor_T x_col) = Inr dW1"
      "shape dW1 = [F, C * kh * kw]"
    using tensor_matmul_shape [of ?pr F "N * oh * ow" "tensor_T x_col" "C * kh * kw"]
    by (auto simp: shape_tensor_T2 [OF shx])
  have dW2: "tensor_reshape dW1 [F, C, kh, kw] = Inr (dW1\<lparr>shape := [F, C, kh, kw]\<rparr>)"
    using cfg fit
    by (intro tensor_reshape_4) (simp_all add: dW1 mult.assoc)
  have wr: "tensor_reshape w [F, -1] = Inr (w\<lparr>shape := [F, C * kh * kw]\<rparr>)"
    using cfg by (intro tensor_reshape_infer) (simp_all add: w mult.assoc)
  obtain dXc where dXc: "tensor_matmul (tensor_T ?pr) (w\<lparr>shape := [F, C * kh * kw]\<rparr>) = Inr dXc"
      "shape dXc = [N * oh * ow, C * kh * kw]"
    using tensor_matmul_shape [of "tensor_T ?pr" "N * oh * ow" F
        "w\<lparr>shape := [F, C * kh * kw]\<rparr>" "C * kh * kw"]
    by (auto simp: shape_tensor_T2 [of ?pr F "N * oh * ow"])
  obtain dX where dX: "col2im_indices dXc [N, C, H, Wd] ds kh kw p s = Inr dX"
      "shape dX = [N, C, H, Wd]"
  proof -
    have "length (shape dXc) = 2"
      by (simp add: dXc)
    moreover have "prod_list (shape dXc) = (C * kh * kw) * (N * conv_out H kh p s * conv_out Wd kw p s)"
      by (simp add: dXc oh_def ow_def)
    ultimately have "\<exists>r. col2im_indices dXc [N, C, H, Wd] ds kh kw p s = Inr r
        \<and> shape r = [N, C, H, Wd]"
      using cfg fit unfolding p_def s_def by (intro col2im_indices_shape) simp_all
    then show ?thesis using that by blast
  qed
  have "\<exists>self'. backward self g = (self', Inr dX)"
    using pt(1)
    by (simp add: backward_def Let_def unpack4_4 w xc(1) ds ish pg db1 db2 pr dW1 dW2 wr dXc dX
          and_then_def defs)
  with dX(2) show ?thesis by blast
qed


lemma backward_first_layer_shape:
  assumes cfg: "1 \<le> stride self" "0 \<le> padding self" "1 \<le> nb_filter self"
    and fs: "filter_size self = FilterTuple [kh, kw]
             \<or> (filter_size self = FilterInt kh \<and> kw = kh)"
    and k: "1 \<le> kh" "1 \<le> kw"
    and ish: "input_shape self = Some [N, C, H, Wd]"
    and fit: "0 \<le> N" "0 \<le> C" "kh \<le> H + 2 * padding self" "kw \<le> Wd + 2 * padding self"
    and xavier: "shape (init self [nb_filter self, C, kh, kw]) = [nb_filter self, C, kh, kw]"
    and x: "shape x = [N, C, H, Wd]"
    and g: "shape g = [N, nb_filter self, (H + 2 * padding self - kh) div stride self + 1,
                       (Wd + 2 * padding self - kw) div stride self + 1]"
    and act: "activation self = None
              \<or> (\<exists>a. activation self = Some a \<and> shape (act_derivative a g) = shape g)"
  shows "\<exists>dX. snd (backward (fst (forward (fst (connect_to self None)) x)) g) = Inr dX
           \<and> shape dX = [N, C, H, Wd]"
proof -
  let ?oh = "conv_out H kh (padding self) (stride self)"
  let ?ow = "conv_out Wd kw (padding self) (stride self)"
  let ?w = "init self [nb_filter self, C, kh, kw]"
  obtain z where z: "shape z = [nb_filter self]"
    and c: "connect_to self None =
             (self\<lparr>out_shape := Some [N, nb_filter self, ?oh, ?ow],
                   W := Some ?w, b := Some z\<rparr>, Inr ())"
    using connect_to_ok [OF _ _ fs, of None N C H Wd] cfg ish by auto
  define self1 where
    "self1 = self\<lparr>out_shape := Some [N, nb_filter self, ?oh, ?ow], W := Some ?w, b := Some z\<rparr>"
  have "\<exists>x_col out lo.
           forward self1 x =
             (self1\<lparr>last_input := Some x, ds_cached := Some (data_subjects x),
                   X_col := Some x_col, last_output := Some lo\<rparr>, Inr out)
           \<and> shape x_col = [C * kh * kw, N * conv_out H kh (padding self1) (stride self1)
                                            * conv_out Wd kw (padding self1) (stride self1)]
           \<and> shape out = [N, nb_filter self, conv_out H kh (padding self1) (stride self1),
                           conv_out Wd kw (padding self1) (stride self1)]"
    using cfg k fit
    by (intro forward_connected_state [where w = ?w and z = z and nb = N
          and nf = "nb_filter self"])
       (simp_all add: self1_def xavier z x)
  then obtain x_col out lo where f: "forward self1 x =
             (self1\<lparr>last_input := Some x, ds_cached := Some (data_subjects x),
                   X_col := Some x_col, last_output := Some lo\<rparr>, Inr out)"
      and xc: "shape x_col = [C * kh * kw, N * ?oh * ?ow]"
    by (auto simp: self1_def)
  define self2 where
    "self2 = self1\<lparr>last_input := Some x, ds_cached := Some (data_subjects x),
                   X_col := Some x_col, last_output := Some lo\<rparr>"
  have "\<exists>self' dX. backward self2 g = (self', Inr dX) \<and> shape dX = [N, C, H, Wd]"
    using cfg k fit act
    by (intro backward_connected [where w = ?w and F = "nb_filter self" and kh = kh and kw = kw
          and x_col = x_col and ds = "data_subjects x"])
       (simp_all add: self2_def self1_def xavier xc ish g conv_out_def)
  then show ?thesis
    by (auto simp: c f self1_def [symmetric] self2_def [symmetric])
qed

text \<open>
  The errors of the tensor operations, and \<open>backward\<close> on a layer without patch matrix:
  with rank-4 weights and a gradient of four axes whose second axis is the filter axis,
  the bias gradient is stored and the read of \<open>X_col\<close> raises.
\<close>

lemma tensor_reshape_error: "tensor_reshape t ns = Inl e \<Longrightarrow> e = ValueError"
  by (auto simp: tensor_reshape_def resolve_shape_def Let_def split: sum.splits if_splits)

lemma tensor_transpose_error: "tensor_transpose t axes = Inl e \<Longrightarrow> e = ValueError"
  by (auto simp: tensor_transpose_def split: if_splits)

lemma tensor_mul_error: "tensor_mul a c = Inl e \<Longrightarrow> e = ValueError"
  by (auto simp: tensor_mul_def elementwise_def split: option.splits)

lemma tensor_sum_error: "tensor_sum axes t = Inl e \<Longrightarrow> e = AxisError \<or> e = ValueError"
  by (auto simp: tensor_sum_def Let_def split: if_splits)

lemma backward_None_errors:
  assumes "X_col self = None"
  shows "snd (backward self g) \<in> {Inl AttributeError, Inl ValueError, Inl AxisError}"
  using assms
  by (auto simp: backward_def and_then_def Let_def unpack4_def
        split: option.splits sum.splits prod.splits list.splits
        dest: tensor_reshape_error tensor_transpose_error tensor_mul_error tensor_sum_error)

lemma backward_None_AttributeError:
  assumes xc: "X_col self = None"
    and w: "W self = Some w" "shape w = [F, C, kh, kw]" "1 \<le> F"
    and g: "shape g = [N, F, oh, ow]"
    and act: "activation self = None
              \<or> (\<exists>a. activation self = Some a \<and> shape (act_derivative a g) = shape g)"
  shows "\<exists>d. backward self g = (self\<lparr>db := Some d\<rparr>, Inl AttributeError)"
proof -
  obtain pg where pg:
      "(case activation self of Some a \<Rightarrow> tensor_mul g (act_derivative a g) | None \<Rightarrow> Inr g)
         = Inr pg" "shape pg = [N, F, oh, ow]"
  proof (cases "activation self")
    case None
    then show ?thesis using that g by simp
  next
    case (Some a)
    then have "shape (act_derivative a g) = shape g" using act by auto
    from tensor_mul_same_shape [OF this] Some g show ?thesis
      using that by auto
  qed
  obtain db1 where db1: "tensor_sum [0, 2, 3] pg = Inr db1" "shape db1 = [F]"
    using tensor_sum_023 [OF pg(2)] by auto
  have db2: "tensor_reshape db1 [F, -1] = Inr (db1\<lparr>shape := [F, 1]\<rparr>)"
    using w(3) by (intro tensor_reshape_infer) (simp_all add: db1)
  obtain pt where pt: "tensor_transpose pg [1, 2, 3, 0] = Inr pt" "shape pt = [F, oh, ow, N]"
    using tensor_transpose_1230 [OF pg(2)] by auto
  have pr: "tensor_reshape pt [F, -1] = Inr (pt\<lparr>shape := [F, oh * ow * N]\<rparr>)"
    using w(3) by (intro tensor_reshape_infer) (simp_all add: pt mult.assoc)
  have "backward self g = (self\<lparr>db := Some (db1\<lparr>shape := [F, 1]\<rparr>)\<rparr>, Inl AttributeError)"
    using pt(1)
    by (simp add: backward_def Let_def unpack4_4 w xc pg db1 db2 pr and_then_def)
  then show ?thesis by blast
qed

text \<open>
  \<open>backward\<close> writes the two gradients only, and reads neither: after a backward pass,
  the outcome of a further backward pass is what it would have been without the first.
\<close>

lemma backward_again:
  "snd (backward (fst (backward self g)) g') = snd (backward self g')"
  by (simp add: backward_def Let_def split: option.split sum.split prod.split)

subsection \<open>What the passes read and write\<close>

text \<open>
  Whenever \<open>forward\<close> returns, \<open>last_output\<close> holds the activation of the returned
  value (the returned value itself when no activation is configured).
\<close>

lemma forward_last_output:
  "forward self x = (self', Inr out) \<Longrightarrow>
   last_output self' = Some (case activation self of Some a \<Rightarrow> act_forward a out | None \<Rightarrow> out)"
  by (auto simp: forward_def Let_def split: option.splits sum.splits prod.splits)

text \<open>
  Neither \<open>connect_to\<close> nor \<open>forward\<close> writes \<open>input_shape\<close>, and \<open>backward\<close> returns no
  gradient while it is \<open>None\<close>.
\<close>

lemma connect_to_input_shape: "input_shape (fst (connect_to self prev_layer)) = input_shape self"
  by (simp add: connect_to_def Let_def split: sum.split prod.split)

lemma forward_input_shape: "input_shape (fst (forward self x)) = input_shape self"
  by (simp add: forward_def Let_def split: option.split sum.split prod.split)

lemma backward_input_shape_None:
  "input_shape self = None \<Longrightarrow> \<exists>e. snd (backward self g) = Inl e"
  by (simp add: backward_def and_then_def Let_def split: option.split sum.split prod.split)

text \<open>
  \<open>backward\<close> reads neither \<open>last_input\<close> nor \<open>last_output\<close>: its outcome and the
  gradients it stores do not depend on them.
\<close>

lemma backward_reads_no_forward_value:
  "snd (backward (self\<lparr>last_input := li, last_output := lo\<rparr>) g) = snd (backward self g)
   \<and> db (fst (backward (self\<lparr>last_input := li, last_output := lo\<rparr>) g))
       = db (fst (backward self g))
   \<and> dW (fst (backward (self\<lparr>last_input := li, last_output := lo\<rparr>) g))
       = dW (fst (backward self g))"
  by (simp add: backward_def Let_def split: option.split sum.split prod.split)

subsection \<open>The accessors\<close>

text \<open>
  C8. Assigning to \<open>params\<close> a sequence whose length is not 2 fails (the \<open>assert\<close> of the
  setter, an \<open>AssertionError\<close>) and leaves the layer as it was; assigning a pair
  \<open>(w, b)\<close> succeeds and replaces the weights and the bias of the layer by \<open>w\<close> and \<open>b\<close>.
\<close>

theorem set_params_arity:
  "(length new_params \<noteq> 2 \<longrightarrow> set_params self new_params = (self, Inl AssertionError))
   \<and> set_params self [w, bias] = (self\<lparr>W := Some w, b := Some bias\<rparr>, Inr ())"
  by (simp add: set_params_def)

theorem set_params_arity_witness:
  "length [ones [1], ones [2], ones [3]] \<noteq> 2
   \<and> snd (set_params (Convolution 1 (FilterInt 1) None 1 0 None ones)
             [ones [1], ones [2], ones [3]]) = Inl AssertionError
   \<and> W (fst (set_params (Convolution 1 (FilterInt 1) None 1 0 None ones)
             [ones [1, 1, 1, 1], ones [1]])) = Some (ones [1, 1, 1, 1])
   \<and> b (fst (set_params (Convolution 1 (FilterInt 1) None 1 0 None ones)
             [ones [1, 1, 1, 1], ones [1]])) = Some (ones [1])"
  using set_params_arity [of "[ones [1], ones [2], ones [3]]"
      "Convolution 1 (FilterInt 1) None 1 0 None ones" "ones [1, 1, 1, 1]" "ones [1]"]
  by simp

text \<open>
  C10. Setting \<open>params\<close> to \<open>(w, b)\<close> succeeds, reading \<open>params\<close> afterwards returns
  exactly \<open>(w, b)\<close>, and \<open>grads\<close> returns what it returned before.
\<close>

theorem params_roundtrip:
  "snd (set_params self [w, bias]) = Inr ()
   \<and> params (fst (set_params self [w, bias])) = (Some w, Some bias)
   \<and> grads (fst (set_params self [w, bias])) = grads self"
  by (simp add: set_params_def params_def grads_def)

theorem params_roundtrip_witness:
  "params (fst (set_params (Convolution 2 (FilterInt 3) None 1 0 None ones)
                  [ones [2, 1, 3, 3], ones [2]]))
     = (Some (ones [2, 1, 3, 3]), Some (ones [2]))
   \<and> grads (fst (set_params (Convolution 2 (FilterInt 3) None 1 0 None ones)
                  [ones [2, 1, 3, 3], ones [2]])) = (None, None)"
  using params_roundtrip [of "Convolution 2 (FilterInt 3) None 1 0 None ones"
      "ones [2, 1, 3, 3]" "ones [2]"]
  by (simp add: grads_def Convolution_def)

subsection \<open>Connecting\<close>

text \<open>
  C7. A layer that holds no input shape and is connected with no predecessor fails (the
  first \<open>assert\<close> of \<open>connect_to\<close>, an \<open>AssertionError\<close>); when an input shape is
  available, from the layer itself or from the predecessor's output shape, and it does
  not have exactly 4 axes, \<open>connect_to\<close> fails (the second \<open>assert\<close>). In each case the
  layer is left as it was.
\<close>

theorem connect_to_input_shape_errors:
  "(input_shape self = None \<longrightarrow> connect_to self None = (self, Inl AssertionError))
   \<and> (input_shape self = Some sh \<and> length sh \<noteq> 4
        \<longrightarrow> connect_to self None = (self, Inl AssertionError))
   \<and> (out_shape prev = Some sh \<and> length sh \<noteq> 4
        \<longrightarrow> connect_to self (Some prev) = (self, Inl AssertionError))"
  by (simp add: connect_to_def connect_input_shape_def and_then_def)

theorem connect_to_input_shape_errors_witness:
  "snd (connect_to (Convolution 4 (FilterInt 3) None 1 1 None ones) None)
     = Inl AssertionError
   \<and> snd (connect_to (Convolution 4 (FilterInt 3) (Some [3, 8, 8]) 1 1 None ones) None)
     = Inl AssertionError
   \<and> snd (connect_to (Convolution 4 (FilterInt 3) None 1 1 None ones)
            (Some ((Convolution 4 (FilterInt 3) None 1 1 None ones)
                     \<lparr>out_shape := Some [3, 8, 8]\<rparr>)))
     = Inl AssertionError"
proof -
  have "input_shape (Convolution 4 (FilterInt 3) None 1 1 None ones) = None"
    by (simp add: Convolution_def)
  moreover have "input_shape (Convolution 4 (FilterInt 3) (Some [3, 8, 8]) 1 1 None ones)
      = Some [3, 8, 8] \<and> length [3, 8, 8 :: int] \<noteq> 4"
    by (simp add: Convolution_def)
  moreover have "out_shape ((Convolution 4 (FilterInt 3) None 1 1 None ones)
      \<lparr>out_shape := Some [3, 8, 8]\<rparr>) = Some [3, 8, 8]"
    by simp
  ultimately show ?thesis
    using connect_to_input_shape_errors
            [of "Convolution 4 (FilterInt 3) None 1 1 None ones" "[3, 8, 8]"
                "(Convolution 4 (FilterInt 3) None 1 1 None ones)\<lparr>out_shape := Some [3, 8, 8]\<rparr>"]
          connect_to_input_shape_errors
            [of "Convolution 4 (FilterInt 3) (Some [3, 8, 8]) 1 1 None ones" "[3, 8, 8]"
                "(Convolution 4 (FilterInt 3) None 1 1 None ones)\<lparr>out_shape := Some [3, 8, 8]\<rparr>"]
    by simp
qed

subsection \<open>The frame of forward\<close>

text \<open>
  C9. A forward call, whether it returns or raises, writes only the cached state of the
  pass (\<open>last_input\<close>, \<open>ds_cached\<close>, \<open>X_col\<close>, \<open>last_output\<close>): putting these four
  attributes back gives the layer before the call. In particular the weights \<open>W\<close>, the
  bias \<open>b\<close>, the gradients \<open>dW\<close> and \<open>db\<close> and the output shape of connect time are the
  same before and after.
\<close>

theorem forward_frame:
  "W (fst (forward self x)) = W self
   \<and> b (fst (forward self x)) = b self
   \<and> dW (fst (forward self x)) = dW self
   \<and> db (fst (forward self x)) = db self
   \<and> out_shape (fst (forward self x)) = out_shape self
   \<and> (fst (forward self x))\<lparr>last_input := last_input self, ds_cached := ds_cached self,
         X_col := X_col self, last_output := last_output self\<rparr> = self"
  by (simp add: forward_def Let_def split: option.split sum.split prod.split)

theorem forward_frame_witness:
  "W (fst (forward conv_relu x_neg)) = W conv_relu
   \<and> b (fst (forward conv_relu x_neg)) = b conv_relu
   \<and> dW (fst (forward conv_relu x_neg)) = dW conv_relu
   \<and> db (fst (forward conv_relu x_neg)) = db conv_relu
   \<and> out_shape (fst (forward conv_relu x_neg)) = out_shape conv_relu"
  using forward_frame [of conv_relu x_neg] by simp

subsection \<open>The shape law\<close>

text \<open>
  C2. For a layer with stride at least 1, non-negative padding, at least one filter and a
  kernel \<open>kh \<times> kw\<close> (given as a pair or as one int), and for an input shape
  \<open>(N, C, H, W)\<close> (the layer's own, or the output shape of the predecessor) with
  \<open>H + 2p \<ge> kh\<close> and \<open>W + 2p \<ge> kw\<close>: \<open>connect_to\<close> succeeds and sets the output shape
  \<open>(N, filters, (H + 2p - kh) // s + 1, (W + 2p - kw) // s + 1)\<close>, and \<open>forward\<close> on an
  input of shape \<open>(N, C, H, W)\<close> then returns a tensor of exactly that output shape. The
  initialisation strategy is assumed to return an array of the shape it is asked for.
\<close>

theorem shape_law:
  assumes cfg: "1 \<le> stride self" "0 \<le> padding self" "1 \<le> nb_filter self"
    and fs: "filter_size self = FilterTuple [kh, kw]
             \<or> (filter_size self = FilterInt kh \<and> kw = kh)"
    and k: "1 \<le> kh" "1 \<le> kw"
    and src: "(prev_layer = None \<and> input_shape self = Some [N, C, H, Wd])
              \<or> (\<exists>prev. prev_layer = Some prev \<and> out_shape prev = Some [N, C, H, Wd])"
    and fit: "0 \<le> N" "kh \<le> H + 2 * padding self" "kw \<le> Wd + 2 * padding self"
    and xavier: "shape (init self [nb_filter self, C, kh, kw]) = [nb_filter self, C, kh, kw]"
    and x: "shape x = [N, C, H, Wd]"
  shows "\<exists>self1 self2 out.
           connect_to self prev_layer = (self1, Inr ())
         \<and> out_shape self1 = Some [N, nb_filter self,
               (H + 2 * padding self - kh) div stride self + 1,
               (Wd + 2 * padding self - kw) div stride self + 1]
         \<and> forward self1 x = (self2, Inr out)
         \<and> Some (shape out) = out_shape self1"
proof -
  let ?oh = "conv_out H kh (padding self) (stride self)"
  let ?ow = "conv_out Wd kw (padding self) (stride self)"
  obtain z where z: "shape z = [nb_filter self]"
    and c: "connect_to self prev_layer =
             (self\<lparr>out_shape := Some [N, nb_filter self, ?oh, ?ow],
                   W := Some (init self [nb_filter self, C, kh, kw]), b := Some z\<rparr>, Inr ())"
    using connect_to_ok [OF _ _ fs src] cfg by auto
  define self1 where
    "self1 = self\<lparr>out_shape := Some [N, nb_filter self, ?oh, ?ow],
                  W := Some (init self [nb_filter self, C, kh, kw]), b := Some z\<rparr>"
  have "\<exists>self2 out. forward self1 x = (self2, Inr out)
          \<and> shape out = [N, nb_filter self, conv_out H kh (padding self1) (stride self1),
                          conv_out Wd kw (padding self1) (stride self1)]"
    using cfg k fit
    by (intro forward_connected [where w = "init self [nb_filter self, C, kh, kw]" and z = z
          and C = C and nb = N and nf = "nb_filter self"])
       (simp_all add: self1_def xavier z x)
  then obtain self2 out where "forward self1 x = (self2, Inr out)"
      "shape out = [N, nb_filter self, ?oh, ?ow]"
    by (auto simp: self1_def)
  with c show ?thesis
    unfolding self1_def [symmetric] by (auto simp: self1_def conv_out_def)
qed

theorem shape_law_witness:
  "\<exists>self1 self2 out.
     connect_to (Convolution 4 (FilterInt 3) (Some [2, 3, 8, 8]) 1 1 None ones) None
       = (self1, Inr ())
   \<and> out_shape self1 = Some [2, 4, 8, 8]
   \<and> forward self1 (ones [2, 3, 8, 8]) = (self2, Inr out)
   \<and> Some (shape out) = out_shape self1"
  using shape_law [where self = "Convolution 4 (FilterInt 3) (Some [2, 3, 8, 8]) 1 1 None ones"
      and kh = 3 and kw = 3 and prev_layer = None and N = 2 and C = 3 and H = 8 and Wd = 8
      and x = "ones [2, 3, 8, 8]"]
  by (simp add: Convolution_def ones_def)

subsection \<open>Shape errors of forward\<close>

text \<open>
  C6, as the code has it. Take a layer connected under the conditions of the shape law,
  with an input shape \<open>(N, C, H, W)\<close>. Then \<open>forward\<close> fails with a \<open>ValueError\<close>, the
  shape error of the code, when the input does not have rank 4 (the unpacking of
  \<open>input.shape\<close>), and when it has rank 4, its window fits and its channel count differs
  from \<open>C\<close>, the input-channel axis of the weights (the matrix multiply). On every rank-4
  input with \<open>C\<close> channels and the height \<open>H\<close> and width \<open>W\<close> the layer was connected
  with, whatever its batch size, \<open>forward\<close> does not fail, and returns a tensor of shape
  \<open>(batch of the input, filters, out_h, out_w)\<close>: the batch size of the reshape is read
  from the input, only \<open>out_h\<close> and \<open>out_w\<close> are those of connect time. Nothing is said
  about a rank-4 input with \<open>C\<close> channels and another height or width.
\<close>

theorem forward_shape_mismatch:
  assumes cfg: "1 \<le> stride self" "0 \<le> padding self" "1 \<le> nb_filter self"
    and fs: "filter_size self = FilterTuple [kh, kw]
             \<or> (filter_size self = FilterInt kh \<and> kw = kh)"
    and k: "1 \<le> kh" "1 \<le> kw"
    and src: "(prev_layer = None \<and> input_shape self = Some [N, C, H, Wd])
              \<or> (\<exists>prev. prev_layer = Some prev \<and> out_shape prev = Some [N, C, H, Wd])"
    and xavier: "shape (init self [nb_filter self, C, kh, kw]) = [nb_filter self, C, kh, kw]"
  shows "snd (connect_to self prev_layer) = Inr ()
       \<and> (length (shape x) \<noteq> 4
            \<longrightarrow> snd (forward (fst (connect_to self prev_layer)) x) = Inl ValueError)
       \<and> (shape x = [N', C', H', Wd'] \<and> C' \<noteq> C
            \<and> kh \<le> H' + 2 * padding self \<and> kw \<le> Wd' + 2 * padding self
            \<longrightarrow> snd (forward (fst (connect_to self prev_layer)) x) = Inl ValueError)
       \<and> (shape x = [N', C, H, Wd] \<and> 0 \<le> N'
            \<and> kh \<le> H + 2 * padding self \<and> kw \<le> Wd + 2 * padding self
            \<longrightarrow> (\<exists>out. snd (forward (fst (connect_to self prev_layer)) x) = Inr out
                    \<and> shape out = [N', nb_filter self,
                          (H + 2 * padding self - kh) div stride self + 1,
                          (Wd + 2 * padding self - kw) div stride self + 1]))"
proof -
  let ?oh = "conv_out H kh (padding self) (stride self)"
  let ?ow = "conv_out Wd kw (padding self) (stride self)"
  let ?w = "init self [nb_filter self, C, kh, kw]"
  obtain z where z: "shape z = [nb_filter self]"
    and c: "connect_to self prev_layer =
             (self\<lparr>out_shape := Some [N, nb_filter self, ?oh, ?ow],
                   W := Some ?w, b := Some z\<rparr>, Inr ())"
    using connect_to_ok [OF _ _ fs src] cfg by auto
  define self1 where
    "self1 = self\<lparr>out_shape := Some [N, nb_filter self, ?oh, ?ow], W := Some ?w, b := Some z\<rparr>"
  have c1: "connect_to self prev_layer = (self1, Inr ())"
    using c by (simp add: self1_def)
  have rank: "snd (forward self1 x) = Inl ValueError" if "length (shape x) \<noteq> 4"
    using forward_rank_mismatch [of self1 ?w x] that
    by (simp add: self1_def xavier)
  have chan: "snd (forward self1 x) = Inl ValueError"
    if "shape x = [N', C', H', Wd']" "C' \<noteq> C"
       "kh \<le> H' + 2 * padding self" "kw \<le> Wd' + 2 * padding self"
    using cfg k that
    by (intro forward_channel_mismatch [where w = ?w and F = "nb_filter self" and Cw = C
          and kh = kh and kw = kw and N = N' and C = C' and H = H' and Wd = Wd'
          and ?o0.0 = N and ?o1.0 = "nb_filter self" and ?o2.0 = ?oh and ?o3.0 = ?ow])
       (simp_all add: self1_def xavier)
  have ok: "\<exists>out. snd (forward self1 x) = Inr out
              \<and> shape out = [N', nb_filter self,
                    (H + 2 * padding self - kh) div stride self + 1,
                    (Wd + 2 * padding self - kw) div stride self + 1]"
    if "shape x = [N', C, H, Wd]" "0 \<le> N'"
       "kh \<le> H + 2 * padding self" "kw \<le> Wd + 2 * padding self"
  proof -
    have "\<exists>self2 out. forward self1 x = (self2, Inr out)
            \<and> shape out = [N', nb_filter self, conv_out H kh (padding self1) (stride self1),
                            conv_out Wd kw (padding self1) (stride self1)]"
      using cfg k that
      by (intro forward_connected [where w = ?w and z = z and C = C and nb = N
            and nf = "nb_filter self"])
         (simp_all add: self1_def xavier z)
    then show ?thesis by (auto simp: self1_def conv_out_def)
  qed
  show ?thesis
    using rank chan ok by (simp add: c1)
qed

theorem forward_shape_mismatch_witness:
  "snd (forward conv_three (ones [3, 3])) = Inl ValueError
   \<and> snd (forward conv_three (ones [1, 2, 3, 3])) = Inl ValueError
   \<and> (\<exists>out. snd (forward conv_three (ones [1, 1, 3, 3])) = Inr out
          \<and> shape out = [1, 1, 1, 1])
   \<and> (\<exists>out. snd (forward conv_three (ones [5, 1, 3, 3])) = Inr out
          \<and> shape out = [5, 1, 1, 1])"
  using forward_shape_mismatch
          [where self = "Convolution 1 (FilterInt 3) (Some [1, 1, 3, 3]) 1 0 None ones"
             and kh = 3 and kw = 3 and prev_layer = None
             and N = 1 and C = 1 and H = 3 and Wd = 3 and x = "ones [3, 3]"]
        forward_shape_mismatch
          [where self = "Convolution 1 (FilterInt 3) (Some [1, 1, 3, 3]) 1 0 None ones"
             and kh = 3 and kw = 3 and prev_layer = None
             and N = 1 and C = 1 and H = 3 and Wd = 3 and x = "ones [1, 2, 3, 3]"
             and N' = 1 and C' = 2 and H' = 3 and Wd' = 3]
        forward_shape_mismatch
          [where self = "Convolution 1 (FilterInt 3) (Some [1, 1, 3, 3]) 1 0 None ones"
             and kh = 3 and kw = 3 and prev_layer = None
             and N = 1 and C = 1 and H = 3 and Wd = 3 and x = "ones [1, 1, 3, 3]"
             and N' = 1]
        forward_shape_mismatch
          [where self = "Convolution 1 (FilterInt 3) (Some [1, 1, 3, 3]) 1 0 None ones"
             and kh = 3 and kw = 3 and prev_layer = None
             and N = 1 and C = 1 and H = 3 and Wd = 3 and x = "ones [5, 1, 3, 3]"
             and N' = 5]
  by (simp add: Convolution_def ones_def conv_three_def)

text \<open>
  C6 as stated fails: the input below has rank 4 and one channel, as the weights of
  \<open>conv_three\<close> have, and \<open>forward\<close> raises the \<open>ValueError\<close> all the same, at the
  reshape to \<open>(filters, out_h, out_w, batch)\<close> with the \<open>out_h\<close> and \<open>out_w\<close> of connect
  time, because the image is 4\<times>4 and not 3\<times>3.
\<close>

theorem forward_conforming_input_counterexample:
  "length (shape (ones [1, 1, 4, 4])) = 4
   \<and> map_option shape (W conv_three) = Some [1, 1, 3, 3]
   \<and> snd (forward conv_three (ones [1, 1, 4, 4])) = Inl ValueError"
  by code_simp

subsection \<open>The value returned by forward\<close>

text \<open>
  C1 at a concrete input. \<open>conv_relu\<close> has the rectifier as activation and the weight 1;
  on the input \<open>-3\<close> the pipeline gives \<open>-3\<close>. \<open>forward\<close> stores the activated value \<open>0\<close>
  in \<open>last_output\<close> and returns the value \<open>-3\<close> that is not activated.
\<close>

theorem forward_returns_unactivated:
  "snd (forward conv_relu x_neg)
     = Inr \<lparr>shape = [1, 1, 1, 1], child = [-3], data_subjects = [[7]]\<rparr>
   \<and> last_output (fst (forward conv_relu x_neg))
     = Some \<lparr>shape = [1, 1, 1, 1], child = [0], data_subjects = [[7]]\<rparr>
   \<and> act_forward relu \<lparr>shape = [1, 1, 1, 1], child = [-3], data_subjects = [[7]]\<rparr>
     = \<lparr>shape = [1, 1, 1, 1], child = [0], data_subjects = [[7]]\<rparr>"
  by code_simp

subsection \<open>The backward pass\<close>

text \<open>
  C5 at a concrete input. After the forward pass above the value before activation is
  \<open>-3\<close>, where the derivative of the rectifier is 0; the incoming gradient is \<open>5\<close>, where
  it is 1. \<open>backward\<close> stores the bias gradient \<open>5\<close>, the gradient times the derivative
  at the gradient itself; with the derivative at the value before activation the
  product, and the bias gradient, would be \<open>0\<close>.
\<close>

theorem backward_derivative_at_gradient:
  "snd (forward conv_relu x_neg)
     = Inr \<lparr>shape = [1, 1, 1, 1], child = [-3], data_subjects = [[7]]\<rparr>
   \<and> db (fst (backward (fst (forward conv_relu x_neg)) g_pos))
     = Some \<lparr>shape = [1, 1], child = [5], data_subjects = [[]]\<rparr>
   \<and> tensor_mul g_pos (act_derivative relu g_pos)
     = Inr \<lparr>shape = [1, 1, 1, 1], child = [5], data_subjects = [[]]\<rparr>
   \<and> tensor_mul g_pos (act_derivative relu
          \<lparr>shape = [1, 1, 1, 1], child = [-3], data_subjects = [[7]]\<rparr>)
     = Inr \<lparr>shape = [1, 1, 1, 1], child = [0], data_subjects = [[7]]\<rparr>"
  by code_simp

text \<open>
  C3 at a concrete input. \<open>conv_second\<close> was constructed without input shape and
  connected to a predecessor whose output shape is \<open>(1, 1, 1, 1)\<close>; \<open>connect_to\<close> does not
  store that shape in \<open>input_shape\<close>. The forward pass returns a tensor of the output
  shape, and \<open>backward\<close> on a gradient of that shape raises a \<open>TypeError\<close>, because the
  target shape it hands to \<open>col2im_indices\<close> is \<open>None\<close>. The same layer connected with
  its own input shape (\<open>conv_first\<close>) returns a gradient of the input shape, as every
  layer that holds its input shape does (\<open>backward_first_layer_shape\<close>).
\<close>

theorem backward_after_predecessor:
  "input_shape conv_second = None
   \<and> out_shape conv_second = Some [1, 1, 1, 1]
   \<and> map_sum id shape (snd (forward conv_second x_neg)) = Inr [1, 1, 1, 1]
   \<and> snd (backward (fst (forward conv_second x_neg)) g_pos) = Inl TypeError
   \<and> map_sum id shape (snd (backward (fst (forward conv_first x_neg)) g_pos))
     = Inr [1, 1, 1, 1]"
  by code_simp

text \<open>
  C4, as the code has it. \<open>backward\<close> fails, and returns no input gradient, on every
  layer whose patch matrix \<open>X_col\<close> is \<open>None\<close>; the exception is an \<open>AttributeError\<close> or a
  shape error of the gradient (\<open>ValueError\<close>, \<open>AxisError\<close>). This is the state of a layer
  on which \<open>forward\<close> never ran: the constructor sets \<open>X_col\<close> to \<open>None\<close>, and \<open>backward\<close>
  on a layer just constructed raises an \<open>AttributeError\<close> at once and changes nothing;
  \<open>connect_to\<close> does not write \<open>X_col\<close>, and on a layer with rank-4 weights and no patch
  matrix, \<open>backward\<close> on a gradient of shape \<open>(N, filters, h, w)\<close> stores the bias
  gradient and raises an \<open>AttributeError\<close> at the read of \<open>X_col\<close>. The layer keeps no
  record of a forward pass since the last backward pass: \<open>backward\<close> leaves \<open>X_col\<close> in
  place, and the outcome of a backward pass that follows another backward pass is the
  outcome it would have had without it.
\<close>

theorem backward_without_patch_matrix:
  "(X_col self = None
      \<longrightarrow> snd (backward self g) \<in> {Inl AttributeError, Inl ValueError, Inl AxisError})
   \<and> backward (Convolution nf fs ish s p act xavier) g
       = (Convolution nf fs ish s p act xavier, Inl AttributeError)
   \<and> X_col (Convolution nf fs ish s p act xavier) = None
   \<and> X_col (fst (connect_to self prev_layer)) = X_col self
   \<and> (X_col self = None \<and> W self = Some w \<and> shape w = [F, C, kh, kw] \<and> 1 \<le> F
        \<and> shape g = [N, F, oh, ow]
        \<and> (activation self = None
             \<or> (\<exists>a. activation self = Some a \<and> shape (act_derivative a g) = shape g))
      \<longrightarrow> (\<exists>d. backward self g = (self\<lparr>db := Some d\<rparr>, Inl AttributeError)))
   \<and> X_col (fst (backward self g)) = X_col self
   \<and> snd (backward (fst (backward self g)) g') = snd (backward self g')"
proof -
  have "snd (backward self g) \<in> {Inl AttributeError, Inl ValueError, Inl AxisError}"
    if "X_col self = None"
    using that by (rule backward_None_errors)
  moreover have "backward (Convolution nf fs ish s p act xavier) g
       = (Convolution nf fs ish s p act xavier, Inl AttributeError)"
    by (simp add: backward_def Convolution_def)
  moreover have "X_col (Convolution nf fs ish s p act xavier) = None"
    by (simp add: Convolution_def)
  moreover have "X_col (fst (connect_to self prev_layer)) = X_col self"
    by (simp add: connect_to_def Let_def split: sum.split prod.split)
  moreover have "\<exists>d. backward self g = (self\<lparr>db := Some d\<rparr>, Inl AttributeError)"
    if "X_col self = None" "W self = Some w" "shape w = [F, C, kh, kw]" "1 \<le> F"
       "shape g = [N, F, oh, ow]"
       "activation self = None
        \<or> (\<exists>a. activation self = Some a \<and> shape (act_derivative a g) = shape g)"
    using that by (rule backward_None_AttributeError)
  moreover have "X_col (fst (backward self g)) = X_col self"
    by (simp add: backward_def Let_def split: option.split sum.split prod.split)
  moreover have "snd (backward (fst (backward self g)) g') = snd (backward self g')"
    by (rule backward_again)
  ultimately show ?thesis by blast
qed

theorem backward_without_patch_matrix_witness:
  "X_col conv_relu = None
   \<and> snd (backward conv_relu g_pos) = Inl AttributeError
   \<and> snd (backward (fst (backward (fst (forward conv_relu x_neg)) g_pos)) g_pos)
       = snd (backward (fst (forward conv_relu x_neg)) g_pos)"
proof -
  have xc: "X_col conv_relu = None"
    by code_simp
  have w: "W conv_relu = Some (ones [1, 1, 1, 1])"
    by code_simp
  have act: "activation conv_relu = Some relu"
    by (simp add: conv_relu_def connect_to_def Convolution_def connect_input_shape_def
          and_then_def unpack4_def filter_dims_def zeros_def Let_def)
  have d: "shape (act_derivative relu g_pos) = shape g_pos"
    by (simp add: relu_def)
  have "\<exists>d. backward conv_relu g_pos = (conv_relu\<lparr>db := Some d\<rparr>, Inl AttributeError)"
    using backward_without_patch_matrix
            [where self = conv_relu and g = g_pos and w = "ones [1, 1, 1, 1]"
               and F = 1 and C = 1 and kh = 1 and kw = 1 and N = 1 and oh = 1 and ow = 1]
          xc w act d
    by (simp add: ones_def g_pos_def)
  then have "snd (backward conv_relu g_pos) = Inl AttributeError"
    by auto
  moreover have "snd (backward (fst (backward (fst (forward conv_relu x_neg)) g_pos)) g_pos)
       = snd (backward (fst (forward conv_relu x_neg)) g_pos)"
    using backward_without_patch_matrix
            [where self = "fst (forward conv_relu x_neg)" and g = g_pos and g' = g_pos]
    by blast
  ultimately show ?thesis
    using xc by simp
qed

text \<open>
  C4 as stated fails: after one forward pass and one backward pass, a second backward
  pass, with no forward pass in between, returns an input gradient.
\<close>

theorem backward_twice_counterexample:
  "snd (backward (fst (backward (fst (forward conv_relu x_neg)) g_pos)) g_pos)
     = Inr \<lparr>shape = [1, 1, 1, 1], child = [5], data_subjects = [[7]]\<rparr>"
  by code_simp

end
